theory Spec2Isabelle
  imports Complex_Main
begin

section \<open>JavaScript values used by the analyzer\<close>

text \<open>
  A property of a JavaScript object is absent (\<open>undefined\<close>), \<open>null\<close>, or holds a
  value. The rule engine's violation records are modelled with the field types the rule
  engine gives them; every field may be absent or \<open>null\<close>, which is what the code's
  guards (\<open>||\<close>, \<open>?.\<close>) and its unguarded reads distinguish.
\<close>

datatype 'a js = Undefined | Null | Val 'a

text \<open>An exception: its constructor and its \<open>message\<close>.\<close>

datatype exn = Error string | TypeError string | SyntaxError string

fun message :: "exn \<Rightarrow> string" where
  "message (Error m) = m"
| "message (TypeError m) = m"
| "message (SyntaxError m) = m"

text \<open>Reading a property of \<open>undefined\<close> or \<open>null\<close> throws a \<open>TypeError\<close>; the
  message names the property (the engine's exact wording is not modelled).\<close>

definition cannot_read :: "string \<Rightarrow> exn" where
  "cannot_read p = TypeError (''Cannot read properties of undefined (reading '' @ p @ '')'')"

text \<open>Truthiness of a string-valued property: absent, \<open>null\<close> and the empty string are
  falsy.\<close>

fun truthy :: "string js \<Rightarrow> bool" where
  "truthy (Val s) = (s \<noteq> [])"
| "truthy _ = False"

text \<open>A property inside a template literal \<open>`${x}`\<close>.\<close>

fun template :: "string js \<Rightarrow> string" where
  "template Undefined = ''undefined''"
| "template Null = ''null''"
| "template (Val s) = s"

text \<open>A non-negative integer inside a template literal: its decimal digits.\<close>

fun Number_toString :: "nat \<Rightarrow> string" where
  "Number_toString n =
     (if n < 10 then [''0123456789'' ! n]
      else Number_toString (n div 10) @ [''0123456789'' ! (n mod 10)])"

declare Number_toString.simps [simp del]

text \<open>\<open>String.prototype.toUpperCase\<close> on ASCII text (strings are byte lists here).\<close>

definition upper_char :: "char \<Rightarrow> char" where
  "upper_char c =
     (case map_of (zip ''abcdefghijklmnopqrstuvwxyz'' ''ABCDEFGHIJKLMNOPQRSTUVWXYZ'') c of
        Some u \<Rightarrow> u
      | None \<Rightarrow> c)"

definition toUpperCase :: "string \<Rightarrow> string" where
  "toUpperCase s = map upper_char s"

text \<open>\<open>Math.round\<close>: the nearest integer, halves rounded up. The scores below are
  integer-valued doubles, far below $2^{53}$, so their arithmetic is exact and is done
  in \<open>int\<close>; only the final rounding is applied to the number as a real.\<close>

definition Math_round :: "real \<Rightarrow> int" where
  "Math_round x = \<lfloor>x + 1 / 2\<rfloor>"

definition Math_max :: "int \<Rightarrow> int \<Rightarrow> int" where
  "Math_max a b = max a b"

definition Math_min :: "int \<Rightarrow> int \<Rightarrow> int" where
  "Math_min a b = min a b"

section \<open>Data model\<close>

record node =
  failureSummary :: "string js"

record violation =
  impact :: "string js"
  "help" :: "string js"
  description :: "string js"
  nodes :: "node list js"

record axe_results =
  violations :: "violation list"
  passes :: "violation list js"

record report =
  summary :: string
  recommendations :: "string list"
  severity :: string
  score :: int

section \<open>Client: \<open>getSimulatedAnalysis\<close>\<close>

text \<open>\<open>axeResults.violations.filter(v => v.impact === 'critical').length\<close>\<close>

definition criticalViolations :: "violation list \<Rightarrow> nat" where
  "criticalViolations vs = length (filter (\<lambda>v. impact v = Val ''critical'') vs)"

definition seriousViolations :: "violation list \<Rightarrow> nat" where
  "seriousViolations vs = length (filter (\<lambda>v. impact v = Val ''serious'') vs)"

definition simulated_severity :: "violation list \<Rightarrow> string" where
  "simulated_severity vs =
     (if criticalViolations vs > 0 then ''high''
      else if seriousViolations vs > 0 then ''medium''
      else ''low'')"

text \<open>The callback of \<open>violations.map\<close>: \<open>violation.nodes.length\<close> throws when the
  violation has no \<open>nodes\<close>.\<close>

definition simulated_recommendation :: "violation \<Rightarrow> exn + string" where
  "simulated_recommendation v =
     (case nodes v of
        Val ns \<Rightarrow> Inr (''Fix '' @ template (impact v) @ '' issue: '' @ template (help v)
                        @ '' affecting '' @ Number_toString (length ns) @ '' elements'')
      | _ \<Rightarrow> Inl (cannot_read ''length''))"

text \<open>\<open>Array.prototype.map\<close> with a callback that may throw: the first exception ends
  the loop.\<close>

fun map_throwing :: "('a \<Rightarrow> exn + 'b) \<Rightarrow> 'a list \<Rightarrow> exn + 'b list" where
  "map_throwing f [] = Inr []"
| "map_throwing f (x # xs) =
     (case f x of
        Inl e \<Rightarrow> Inl e
      | Inr y \<Rightarrow> (case map_throwing f xs of Inl e \<Rightarrow> Inl e | Inr ys \<Rightarrow> Inr (y # ys)))"

text \<open>The local \<open>recommendations\<close>: \<open>violations.map(...).slice(0, 5)\<close>.\<close>

definition simulated_recommendations :: "violation list \<Rightarrow> exn + string list" where
  "simulated_recommendations vs =
     (case map_throwing simulated_recommendation vs of
        Inl e \<Rightarrow> Inl e
      | Inr rs \<Rightarrow> Inr (take 5 rs))"

definition simulated_score :: "violation list \<Rightarrow> int" where
  "simulated_score vs =
     Math_max 0 (100
       - (int (criticalViolations vs) * 15)
       - (int (seriousViolations vs) * 10)
       - ((int (length vs) - int (criticalViolations vs) - int (seriousViolations vs)) * 5))"

definition simulated_summary :: "violation list \<Rightarrow> string" where
  "simulated_summary vs =
     ''Analysis found '' @ Number_toString (length vs) @ '' accessibility violations (''
     @ Number_toString (criticalViolations vs) @ '' critical, ''
     @ Number_toString (seriousViolations vs)
     @ '' serious). The website requires '' @ simulated_severity vs
     @ '' priority attention to meet accessibility standards.''"

definition getSimulatedAnalysis :: "axe_results \<Rightarrow> exn + report" where
  "getSimulatedAnalysis axeResults =
     (let vs = violations axeResults in
      case simulated_recommendations vs of
        Inl e \<Rightarrow> Inl e
      | Inr recs \<Rightarrow>
          Inr \<lparr> summary = simulated_summary vs,
                recommendations =
                  (if length recs > 0 then recs
                   else [''No specific violations found to address'']),
                severity = simulated_severity vs,
                score = Math_round (of_int (simulated_score vs)) \<rparr>)"

text \<open>A violation that carries a \<open>nodes\<close> array.\<close>

definition has_nodes :: "violation \<Rightarrow> bool" where
  "has_nodes v = (case nodes v of Val ns \<Rightarrow> True | _ \<Rightarrow> False)"

section \<open>Server: the heuristic of the \<open>/analyze\<close> handler\<close>

text \<open>\<open>impactCounts\<close>: the object built by \<open>violations.reduce\<close>, keyed by
  \<open>v.impact || 'minor'\<close>. Only the keys \<open>critical\<close>, \<open>serious\<close>, \<open>moderate\<close> and
  \<open>minor\<close> are read afterwards; none of them is a property the empty object inherits,
  so a finite map from keys to counts holds what the code reads.\<close>

type_synonym counts = "string \<rightharpoonup> nat"

definition impact_key :: "violation \<Rightarrow> string" where
  "impact_key v = (if truthy (impact v) then template (impact v) else ''minor'')"

definition or0 :: "nat option \<Rightarrow> nat" where
  "or0 c = (case c of None \<Rightarrow> 0 | Some n \<Rightarrow> n)"

definition count_impact :: "counts \<Rightarrow> violation \<Rightarrow> counts" where
  "count_impact counts v =
     (let impact = impact_key v in counts(impact \<mapsto> or0 (counts impact) + 1))"

definition impactCounts :: "violation list \<Rightarrow> counts" where
  "impactCounts vs = foldl count_impact Map.empty vs"

text \<open>\<open>impactCounts.critical > 0\<close>: a missing key compares as false.\<close>

definition positive :: "nat option \<Rightarrow> bool" where
  "positive c = (case c of None \<Rightarrow> False | Some n \<Rightarrow> n > 0)"

definition analyze_severity :: "counts \<Rightarrow> string" where
  "analyze_severity ic =
     (if positive (ic ''critical'') then ''high''
      else if positive (ic ''serious'') then ''medium''
      else if or0 (ic ''moderate'') > 2 then ''medium''
      else ''low'')"

definition analyze_score :: "counts \<Rightarrow> int" where
  "analyze_score ic =
     Math_max 0 (Math_min 100 (100
       - (int (or0 (ic ''critical'')) * 20)
       - (int (or0 (ic ''serious'')) * 15)
       - (int (or0 (ic ''moderate'')) * 10)
       - (int (or0 (ic ''minor'')) * 5)))"

text \<open>\<open>v.nodes?.length\<close> and \<open>v.nodes?.[0]?.failureSummary\<close>: absent where \<open>nodes\<close> is.\<close>

fun nodes_length :: "node list js \<Rightarrow> nat option" where
  "nodes_length (Val ns) = Some (length ns)"
| "nodes_length _ = None"

fun first_failureSummary :: "node list js \<Rightarrow> string js" where
  "first_failureSummary (Val (n # ns)) = failureSummary n"
| "first_failureSummary _ = Undefined"

definition analyze_recommendation :: "violation \<Rightarrow> string" where
  "analyze_recommendation v =
     (let impact = (if truthy (impact v)
                    then ''['' @ toUpperCase (template (impact v)) @ '']'' else '''');
          elements = (if positive (nodes_length (nodes v))
                      then '' ('' @ Number_toString (or0 (nodes_length (nodes v)))
                           @ '' elements affected)''
                      else '''')
      in impact @ '' ''
         @ template (if truthy (description v) then description v else help v)
         @ elements @ ''. ''
         @ (if truthy (first_failureSummary (nodes v))
            then template (first_failureSummary (nodes v)) else ''''))"

definition analyze_recommendations :: "violation list \<Rightarrow> string list" where
  "analyze_recommendations vs = take 5 (map analyze_recommendation vs)"

definition analyze_summary :: "violation list \<Rightarrow> string" where
  "analyze_summary vs =
     (let ic = impactCounts vs in
      ''Analysis found '' @ Number_toString (length vs) @ '' accessibility issues: ''
      @ Number_toString (or0 (ic ''critical'')) @ '' critical, ''
      @ Number_toString (or0 (ic ''serious'')) @ '' serious, ''
      @ Number_toString (or0 (ic ''moderate'')) @ '' moderate. ''
      @ ''This website requires '' @ analyze_severity ic @ '' priority attention.'')"

definition analyze_report :: "violation list \<Rightarrow> report" where
  "analyze_report vs =
     \<lparr> summary = analyze_summary vs,
       recommendations = analyze_recommendations vs,
       severity = analyze_severity (impactCounts vs),
       score = Math_round (of_int (analyze_score (impactCounts vs))) \<rparr>"

section \<open>\<open>JSON.parse\<close>\<close>

text \<open>
  \<open>JSON.parse\<close> belongs to the language runtime. It is modelled from the JSON grammar
  (ECMA-404) as a pushdown automaton that reads the text one character at a time: the
  mode says what may come next, the stack holds the arrays and objects that are still
  open. String values are lists of UTF-16 code units; a number keeps its text.
\<close>

datatype json =
    JNull
  | JBool bool
  | JNum string
  | JStr "nat list"
  | JArr "json list"
  | JObj "(nat list \<times> json) list"

datatype frame =
    FArr "json list"
  | FObj "(nat list \<times> json) list"
  | FObjVal "(nat list \<times> json) list" "nat list"

datatype num_state = NMinus | NZero | NInt | NDot | NFrac | NExp | NExpSign | NExpDigits

datatype mode =
    Value
  | ValueOrClose
  | KeyOrClose
  | Key
  | Colon "nat list"
  | AfterValue
  | Done json
  | InString bool "nat list"
  | InEscape bool "nat list"
  | InUnicode bool "nat list" "nat list"
  | InLiteral json string
  | InNumber num_state string

type_synonym pstate = "mode \<times> frame list"

definition is_ws :: "char \<Rightarrow> bool" where
  "is_ws c = (c = CHR '' '' \<or> c = CHR 0x09 \<or> c = CHR 0x0A \<or> c = CHR 0x0D)"

definition is_digit :: "char \<Rightarrow> bool" where
  "is_digit c = (c \<in> set ''0123456789'')"

definition hex_value :: "char \<Rightarrow> nat option" where
  "hex_value c =
     map_of (zip ''0123456789abcdefABCDEF''
                 [0, 1, 2, 3, 4, 5, 6, 7, 8, 9, 10, 11, 12, 13, 14, 15, 10, 11, 12, 13, 14, 15]) c"

text \<open>A value is complete: it goes to the enclosing array or object, or it is the
  whole text.\<close>

fun finish :: "json \<Rightarrow> frame list \<Rightarrow> pstate option" where
  "finish v [] = Some (Done v, [])"
| "finish v (FArr es # st) = Some (AfterValue, FArr (es @ [v]) # st)"
| "finish v (FObjVal ms k # st) = Some (AfterValue, FObj (ms @ [(k, v)]) # st)"
| "finish v (FObj ms # st) = None"

text \<open>A string literal is complete: a key waits for its colon, a value is finished.\<close>

definition finish_string :: "bool \<Rightarrow> nat list \<Rightarrow> frame list \<Rightarrow> pstate option" where
  "finish_string is_key s st = (if is_key then Some (Colon s, st) else finish (JStr s) st)"

text \<open>The first character of a value.\<close>

definition start_value :: "char \<Rightarrow> frame list \<Rightarrow> pstate option" where
  "start_value c st =
     (if c = CHR ''['' then Some (ValueOrClose, FArr [] # st)
      else if c = CHR ''{'' then Some (KeyOrClose, FObj [] # st)
      else if c = CHR 0x22 then Some (InString False [], st)
      else if c = CHR ''t'' then Some (InLiteral (JBool True) ''rue'', st)
      else if c = CHR ''f'' then Some (InLiteral (JBool False) ''alse'', st)
      else if c = CHR ''n'' then Some (InLiteral JNull ''ull'', st)
      else if c = CHR ''-'' then Some (InNumber NMinus [c], st)
      else if c = CHR ''0'' then Some (InNumber NZero [c], st)
      else if is_digit c then Some (InNumber NInt [c], st)
      else None)"

text \<open>After a complete value: a separator, a closing bracket, or white space.\<close>

fun after_value :: "char \<Rightarrow> pstate \<Rightarrow> pstate option" where
  "after_value c (Done v, st) = (if is_ws c then Some (Done v, st) else None)"
| "after_value c (AfterValue, FArr es # st) =
     (if is_ws c then Some (AfterValue, FArr es # st)
      else if c = CHR '','' then Some (Value, FArr es # st)
      else if c = CHR '']'' then finish (JArr es) st
      else None)"
| "after_value c (AfterValue, FObj ms # st) =
     (if is_ws c then Some (AfterValue, FObj ms # st)
      else if c = CHR '','' then Some (Key, FObj ms # st)
      else if c = CHR ''}'' then finish (JObj ms) st
      else None)"
| "after_value c _ = None"

text \<open>The number grammar: \<open>-? (0 | [1-9][0-9]*) (. [0-9]+)? ([eE] [+-]? [0-9]+)?\<close>.
  \<open>None\<close> when the character does not continue the number.\<close>

fun num_step :: "num_state \<Rightarrow> char \<Rightarrow> num_state option" where
  "num_step NMinus c =
     (if c = CHR ''0'' then Some NZero else if is_digit c then Some NInt else None)"
| "num_step NZero c =
     (if c = CHR ''.'' then Some NDot
      else if c = CHR ''e'' \<or> c = CHR ''E'' then Some NExp else None)"
| "num_step NInt c =
     (if is_digit c then Some NInt
      else if c = CHR ''.'' then Some NDot
      else if c = CHR ''e'' \<or> c = CHR ''E'' then Some NExp else None)"
| "num_step NDot c = (if is_digit c then Some NFrac else None)"
| "num_step NFrac c =
     (if is_digit c then Some NFrac
      else if c = CHR ''e'' \<or> c = CHR ''E'' then Some NExp else None)"
| "num_step NExp c =
     (if c = CHR ''+'' \<or> c = CHR ''-'' then Some NExpSign
      else if is_digit c then Some NExpDigits else None)"
| "num_step NExpSign c = (if is_digit c then Some NExpDigits else None)"
| "num_step NExpDigits c = (if is_digit c then Some NExpDigits else None)"

fun num_complete :: "num_state \<Rightarrow> bool" where
  "num_complete NZero = True"
| "num_complete NInt = True"
| "num_complete NFrac = True"
| "num_complete NExpDigits = True"
| "num_complete _ = False"

definition escape_value :: "char \<Rightarrow> nat option" where
  "escape_value c =
     map_of [(CHR 0x22, 0x22), (CHR 0x5C, 0x5C), (CHR ''/'', 0x2F), (CHR ''b'', 0x08),
             (CHR ''f'', 0x0C), (CHR ''n'', 0x0A), (CHR ''r'', 0x0D), (CHR ''t'', 0x09)] c"

fun step :: "char \<Rightarrow> pstate \<Rightarrow> pstate option" where
  "step c (Value, st) = (if is_ws c then Some (Value, st) else start_value c st)"
| "step c (ValueOrClose, FArr es # st) =
     (if is_ws c then Some (ValueOrClose, FArr es # st)
      else if c = CHR '']'' then finish (JArr es) st
      else start_value c (FArr es # st))"
| "step c (ValueOrClose, st) = None"
| "step c (KeyOrClose, FObj ms # st) =
     (if is_ws c then Some (KeyOrClose, FObj ms # st)
      else if c = CHR ''}'' then finish (JObj ms) st
      else if c = CHR 0x22 then Some (InString True [], FObj ms # st)
      else None)"
| "step c (KeyOrClose, st) = None"
| "step c (Key, st) =
     (if is_ws c then Some (Key, st)
      else if c = CHR 0x22 then Some (InString True [], st)
      else None)"
| "step c (Colon k, FObj ms # st) =
     (if is_ws c then Some (Colon k, FObj ms # st)
      else if c = CHR '':'' then Some (Value, FObjVal ms k # st)
      else None)"
| "step c (Colon k, st) = None"
| "step c (AfterValue, st) = after_value c (AfterValue, st)"
| "step c (Done v, st) = after_value c (Done v, st)"
| "step c (InString is_key s, st) =
     (if c = CHR 0x22 then finish_string is_key s st
      else if c = CHR 0x5C then Some (InEscape is_key s, st)
      else if of_char c < (0x20 :: nat) then None
      else Some (InString is_key (s @ [of_char c]), st))"
| "step c (InEscape is_key s, st) =
     (if c = CHR ''u'' then Some (InUnicode is_key s [], st)
      else case escape_value c of
             Some u \<Rightarrow> Some (InString is_key (s @ [u]), st)
           | None \<Rightarrow> None)"
| "step c (InUnicode is_key s hs, st) =
     (case hex_value c of
        None \<Rightarrow> None
      | Some h \<Rightarrow>
          if length hs < 3 then Some (InUnicode is_key s (hs @ [h]), st)
          else Some (InString is_key (s @ [foldl (\<lambda>a d. 16 * a + d) 0 (hs @ [h])]), st))"
| "step c (InLiteral v rest, st) =
     (case rest of
        [] \<Rightarrow> None
      | r # rs \<Rightarrow>
          if c \<noteq> r then None
          else if rs = [] then finish v st
          else Some (InLiteral v rs, st))"
| "step c (InNumber ns lexeme, st) =
     (case num_step ns c of
        Some ns' \<Rightarrow> Some (InNumber ns' (lexeme @ [c]), st)
      | None \<Rightarrow>
          if num_complete ns
          then (case finish (JNum lexeme) st of
                  None \<Rightarrow> None
                | Some s' \<Rightarrow> after_value c s')
          else None)"

fun run :: "string \<Rightarrow> pstate \<Rightarrow> pstate option" where
  "run [] s = Some s"
| "run (c # cs) s = (case step c s of None \<Rightarrow> None | Some s' \<Rightarrow> run cs s')"

text \<open>The end of the text: a complete value and nothing open.\<close>

fun accept :: "pstate \<Rightarrow> json option" where
  "accept (Done v, []) = Some v"
| "accept (InNumber ns lexeme, []) = (if num_complete ns then Some (JNum lexeme) else None)"
| "accept _ = None"

definition JSON_parse :: "string \<Rightarrow> json option" where
  "JSON_parse text = (case run text (Value, []) of None \<Rightarrow> None | Some s \<Rightarrow> accept s)"


text \<open>The states in which the whole text may end: nothing is open and the top-level
  value is complete or is a number still being read.\<close>

definition top_done :: "pstate \<Rightarrow> bool" where
  "top_done s = (snd s = [] \<and> (case fst s of Done v \<Rightarrow> True | InNumber ns l \<Rightarrow> True | _ \<Rightarrow> False))"

section \<open>\<open>String.prototype.indexOf\<close> and \<open>slice\<close>\<close>

text \<open>\<open>search t s\<close> is the first position at which \<open>t\<close> occurs in \<open>s\<close>.
  \<open>indexOf\<close> clamps its start position to the string and answers \<open>-1\<close> when there is
  no occurrence; \<open>slice\<close> counts negative positions from the end.\<close>

fun search :: "string \<Rightarrow> string \<Rightarrow> nat option" where
  "search t [] = (if t = [] then Some 0 else None)"
| "search t (c # s) =
     (if take (length t) (c # s) = t then Some 0 else map_option Suc (search t s))"

definition String_indexOf :: "string \<Rightarrow> string \<Rightarrow> int \<Rightarrow> int" where
  "String_indexOf s t position =
     (let k = nat (min (max position 0) (int (length s))) in
      case search t (drop k s) of
        None \<Rightarrow> - 1
      | Some i \<Rightarrow> int (k + i))"

definition String_slice :: "string \<Rightarrow> int \<Rightarrow> int \<Rightarrow> string" where
  "String_slice s start end' =
     (let len = int (length s);
          from = (if start < 0 then max (len + start) 0 else min start len);
          to = (if end' < 0 then max (len + end') 0 else min end' len)
      in if from < to then take (nat (to - from)) (drop (nat from) s) else [])"

text \<open>Lines 101--104 of the \<open>/analyze\<close> handler, up to the argument of
  \<open>JSON.parse\<close>.\<close>

definition marker :: string where
  "marker = ''Accessibility scan data for''"

definition extract_json :: "string \<Rightarrow> string" where
  "extract_json prompt =
     (let dataStart = String_indexOf prompt marker 0;
          jsonStart = String_indexOf prompt ''['' dataStart;
          jsonEnd = String_indexOf prompt '']'' jsonStart + 1
      in String_slice prompt jsonStart jsonEnd)"

section \<open>HTTP responses of the service\<close>

datatype body =
    ScanBody "violation list" "violation list"
  | ErrorBody string
  | ErrorDetailsBody string string
  | ReportBody string

record response =
  status :: nat
  body :: body

section \<open>\<open>JSON.stringify\<close> of the report\<close>

definition JSON_escape :: "char \<Rightarrow> string" where
  "JSON_escape c =
     (case map_of [(CHR 0x08, ''b''), (CHR 0x09, ''t''), (CHR 0x0A, ''n''), (CHR 0x0C, ''f''),
                   (CHR 0x0D, ''r''), (CHR 0x22, [CHR 0x22]), (CHR 0x5C, [CHR 0x5C])] c of
        Some e \<Rightarrow> CHR 0x5C # e
      | None \<Rightarrow>
          if of_char c < (0x20 :: nat)
          then CHR 0x5C # ''u00'' @ [''0123456789abcdef'' ! (of_char c div 16),
                                    ''0123456789abcdef'' ! (of_char c mod 16)]
          else [c])"

definition JSON_quote :: "string \<Rightarrow> string" where
  "JSON_quote s = CHR 0x22 # concat (map JSON_escape s) @ [CHR 0x22]"

fun join :: "string \<Rightarrow> string list \<Rightarrow> string" where
  "join sep [] = []"
| "join sep [x] = x"
| "join sep (x # y # ys) = x @ sep @ join sep (y # ys)"

definition JSON_number :: "int \<Rightarrow> string" where
  "JSON_number n =
     (if n < 0 then CHR ''-'' # Number_toString (nat (- n)) else Number_toString (nat n))"

definition JSON_stringify :: "report \<Rightarrow> string" where
  "JSON_stringify r =
     ''{'' @ JSON_quote ''summary'' @ '':'' @ JSON_quote (summary r)
     @ '','' @ JSON_quote ''recommendations'' @ '':[''
     @ join '','' (map JSON_quote (recommendations r)) @ '']''
     @ '','' @ JSON_quote ''severity'' @ '':'' @ JSON_quote (severity r)
     @ '','' @ JSON_quote ''score'' @ '':'' @ JSON_number (score r) @ ''}''"

section \<open>Reading the parsed array as violations\<close>

text \<open>
  The handler reads the elements of the parsed array as violation records:
  \<open>Array.isArray\<close>, then the properties \<open>impact\<close>, \<open>help\<close>, \<open>description\<close> and
  \<open>nodes\<close> of each element and \<open>failureSummary\<close> of each node. A repeated key keeps its
  last value. A property holding a value of another type than the rule engine's is
  outside the data model and is read as absent; code units above 255 are outside the
  byte strings used here.
\<close>

definition property_of :: "(nat list \<times> json) list \<Rightarrow> string \<Rightarrow> json option" where
  "property_of ms k = map_of (rev ms) (map of_char k)"

fun string_of :: "json option \<Rightarrow> string js" where
  "string_of (Some (JStr s)) = Val (map char_of s)"
| "string_of (Some JNull) = Null"
| "string_of _ = Undefined"

fun as_node :: "json \<Rightarrow> node" where
  "as_node (JObj ms) = \<lparr> failureSummary = string_of (property_of ms ''failureSummary'') \<rparr>"
| "as_node _ = \<lparr> failureSummary = Undefined \<rparr>"

fun nodes_of :: "json option \<Rightarrow> node list js" where
  "nodes_of (Some (JArr es)) = Val (map as_node es)"
| "nodes_of (Some JNull) = Null"
| "nodes_of _ = Undefined"

fun as_violation :: "json \<Rightarrow> violation" where
  "as_violation (JObj ms) =
     \<lparr> impact = string_of (property_of ms ''impact''), help = string_of (property_of ms ''help''),
       description = string_of (property_of ms ''description''),
       nodes = nodes_of (property_of ms ''nodes'') \<rparr>"
| "as_violation _ =
     \<lparr> impact = Undefined, help = Undefined, description = Undefined, nodes = Undefined \<rparr>"

fun as_violations :: "json \<Rightarrow> violation list option" where
  "as_violations (JArr es) = Some (map as_violation es)"
| "as_violations _ = None"

section \<open>Server: \<open>POST /analyze\<close>\<close>

text \<open>The inner \<open>try\<close> (lines 100--108), the outer \<open>try\<close> (lines 92--155) and the
  handler with its \<open>catch\<close>. \<open>error.stack\<close> is the engine's text; it is a parameter.\<close>

definition parse_violations :: "string \<Rightarrow> exn + json" where
  "parse_violations prompt =
     (case JSON_parse (extract_json prompt) of
        None \<Rightarrow> Inl (Error ''Invalid accessibility data format'')
      | Some parsed \<Rightarrow> Inr parsed)"

definition analyze_try :: "string \<Rightarrow> exn + report" where
  "analyze_try prompt =
     (case parse_violations prompt of
        Inl e \<Rightarrow> Inl e
      | Inr parsed \<Rightarrow>
          (case as_violations parsed of
             None \<Rightarrow> Inl (Error ''No violations data found'')
           | Some vs \<Rightarrow> Inr (analyze_report vs)))"

definition post_analyze :: "(exn \<Rightarrow> string) \<Rightarrow> string js \<Rightarrow> response" where
  "post_analyze stack prompt =
     (if \<not> truthy prompt
      then \<lparr> status = 400, body = ErrorBody ''Prompt is required'' \<rparr>
      else case analyze_try (template prompt) of
             Inr report \<Rightarrow> \<lparr> status = 200, body = ReportBody (JSON_stringify report) \<rparr>
           | Inl error \<Rightarrow>
               \<lparr> status = 500,
                 body = ErrorDetailsBody (''Analysis failed: '' @ message error) (stack error) \<rparr>)"

section \<open>Server: \<open>GET /scan\<close>\<close>





section \<open>Client: the analysis pipeline\<close>











text \<open>The component state: \<open>loading\<close>, \<open>error\<close> and \<open>report\<close>.\<close>

record analysis =
  analysis_url :: string
  timestamp :: string
  axeResults :: axe_results
  llmAnalysis :: report
  totalIssues :: nat

record ui_state =
  loading :: bool
  error :: string
  report :: "analysis option"






section \<open>The score as the specification words it\<close>

text \<open>
  The specification's score: start at 100, subtract per violation a penalty fixed by its
  impact class (critical and serious depending on the variant, moderate 10, minor and
  anything else 5), clamp to \<open>[0,100]\<close>, round. The two variant-dependent penalties
  are parameters.
\<close>

definition spec_penalty :: "int \<Rightarrow> int \<Rightarrow> violation \<Rightarrow> int" where
  "spec_penalty critical serious v =
     (if impact v = Val ''critical'' then critical
      else if impact v = Val ''serious'' then serious
      else if impact v = Val ''moderate'' then 10
      else 5)"

definition spec_score :: "int \<Rightarrow> int \<Rightarrow> violation list \<Rightarrow> int" where
  "spec_score critical serious vs =
     Math_round (of_int (max 0 (min 100
       (100 - sum_list (map (spec_penalty critical serious) vs)))))"

section \<open>Sample violations\<close>

text \<open>Violation records as the rule engine reports them, used to run the definitions.\<close>

definition sample_critical :: violation where
  "sample_critical =
     \<lparr> impact = Val ''critical'', help = Val ''Images need alt text'',
       description = Undefined,
       nodes = Val [\<lparr> failureSummary = Val ''Add an alt attribute'' \<rparr>] \<rparr>"

definition sample_serious :: violation where
  "sample_serious =
     \<lparr> impact = Val ''serious'', help = Val ''Links need text'',
       description = Val ''Link has no text'',
       nodes = Val [\<lparr> failureSummary = Undefined \<rparr>, \<lparr> failureSummary = Null \<rparr>] \<rparr>"

definition sample_moderate :: violation where
  "sample_moderate =
     \<lparr> impact = Val ''moderate'', help = Val ''Add a main landmark'',
       description = Val ''Page has no main landmark'',
       nodes = Val [] \<rparr>"

definition sample_minor :: violation where
  "sample_minor =
     \<lparr> impact = Null, help = Val ''Order the headings'',
       description = Null, nodes = Val [] \<rparr>"

definition sample_without_nodes :: violation where
  "sample_without_nodes =
     \<lparr> impact = Val ''minor'', help = Val ''Order the headings'',
       description = Undefined, nodes = Undefined \<rparr>"


definition sample_array :: string where
  "sample_array = ''[{'' @ [CHR 0x22] @ ''nodes'' @ [CHR 0x22] @ '':[]}]''"




section \<open>Basic facts\<close>

lemma Math_round_of_int [simp]: "Math_round (of_int k) = k"
  unfolding Math_round_def by linarith

lemma Math_round_numeral [simp]: "Math_round (numeral n) = numeral n"
  using Math_round_of_int [of "numeral n"] by simp

lemma Math_round_0 [simp]: "Math_round 0 = 0"
  using Math_round_of_int [of 0] by simp

lemma or0_simps [simp]: "or0 None = 0" "or0 (Some n) = n"
  by (simp_all add: or0_def)

lemma positive_or0: "positive c = (or0 c > 0)"
  by (cases c) (simp_all add: positive_def)

text \<open>What the \<open>reduce\<close> leaves under a key: the number of violations with that key, on
  top of what the accumulator held.\<close>

lemma foldl_count_impact:
  "or0 (foldl count_impact m vs k) = or0 (m k) + length (filter (\<lambda>v. impact_key v = k) vs)"
proof (induction vs arbitrary: m)
  case Nil
  show ?case by simp
next
  case (Cons v vs)
  have "or0 (count_impact m v k) = or0 (m k) + (if impact_key v = k then 1 else 0)"
    by (simp add: count_impact_def Let_def)
  with Cons.IH [of "count_impact m v"] show ?case by simp
qed

lemma impactCounts_key:
  "or0 (impactCounts vs k) = length (filter (\<lambda>v. impact_key v = k) vs)"
  by (simp add: impactCounts_def foldl_count_impact)

lemma impact_key_eq_iff:
  "k \<noteq> ''minor'' \<Longrightarrow> k \<noteq> [] \<Longrightarrow> impact_key v = k \<longleftrightarrow> impact v = Val k"
  by (cases "impact v") (auto simp: impact_key_def)

lemma impact_key_minor:
  "impact_key v = ''minor'' \<longleftrightarrow> impact v = Val ''minor'' \<or> \<not> truthy (impact v)"
  by (cases "impact v") (auto simp: impact_key_def)

lemma count_critical: "or0 (impactCounts vs ''critical'') = criticalViolations vs"
  by (simp add: impactCounts_key criticalViolations_def impact_key_eq_iff)

lemma count_serious: "or0 (impactCounts vs ''serious'') = seriousViolations vs"
  by (simp add: impactCounts_key seriousViolations_def impact_key_eq_iff)

lemma length_filter_pos: "0 < length (filter P xs) \<longleftrightarrow> (\<exists>x\<in>set xs. P x)"
  by (induction xs) auto

text \<open>The two filters of the client select disjoint violations.\<close>

lemma critical_serious_le_length:
  "criticalViolations vs + seriousViolations vs \<le> length vs"
  unfolding criticalViolations_def seriousViolations_def
  by (induction vs) auto

lemma simulated_recommendation_Inr_iff:
  "(\<exists>s. simulated_recommendation v = Inr s) \<longleftrightarrow> has_nodes v"
  by (cases "nodes v") (simp_all add: simulated_recommendation_def has_nodes_def)

lemma map_throwing_Inr_iff:
  "map_throwing f xs = Inr ys \<longleftrightarrow> list_all2 (\<lambda>x y. f x = Inr y) xs ys"
proof (induction xs arbitrary: ys)
  case Nil
  show ?case by auto
next
  case (Cons x xs)
  show ?case
  proof (cases "f x")
    case (Inl e)
    then show ?thesis by (auto simp: list_all2_Cons1)
  next
    case (Inr y)
    then show ?thesis
      using Cons.IH by (cases "map_throwing f xs") (auto simp: list_all2_Cons1)
  qed
qed

lemma map_throwing_total:
  "(\<forall>x\<in>set xs. \<exists>y. f x = Inr y) \<Longrightarrow> \<exists>ys. map_throwing f xs = Inr ys"
proof (induction xs)
  case Nil
  show ?case by simp
next
  case (Cons x xs)
  then obtain y ys where "f x = Inr y" "map_throwing f xs = Inr ys" by auto
  then show ?case by simp
qed

lemma map_throwing_defined:
  "map_throwing f xs = Inr ys \<Longrightarrow> x \<in> set xs \<Longrightarrow> \<exists>y. f x = Inr y"
  unfolding map_throwing_Inr_iff
  by (induction xs ys rule: list_all2_induct) auto


lemma getSimulatedAnalysis_cases:
  "getSimulatedAnalysis ax =
     (case simulated_recommendations (violations ax) of
        Inl e \<Rightarrow> Inl e
      | Inr recs \<Rightarrow>
          Inr \<lparr> summary = simulated_summary (violations ax),
                recommendations =
                  (if length recs > 0 then recs
                   else [''No specific violations found to address'']),
                severity = simulated_severity (violations ax),
                score = simulated_score (violations ax) \<rparr>)"
  unfolding getSimulatedAnalysis_def Let_def Math_round_of_int by (rule refl)

lemma getSimulatedAnalysis_Inr:
  assumes "getSimulatedAnalysis ax = Inr r"
  obtains recs where "simulated_recommendations (violations ax) = Inr recs"
    and "r = \<lparr> summary = simulated_summary (violations ax),
                recommendations =
                  (if length recs > 0 then recs
                   else [''No specific violations found to address'']),
                severity = simulated_severity (violations ax),
                score = simulated_score (violations ax) \<rparr>"
proof (cases "simulated_recommendations (violations ax)")
  case (Inl e)
  with assms show ?thesis by (simp only: getSimulatedAnalysis_cases sum.case sum.distinct)
next
  case (Inr recs)
  with assms have "r = \<lparr> summary = simulated_summary (violations ax),
                recommendations =
                  (if length recs > 0 then recs
                   else [''No specific violations found to address'']),
                severity = simulated_severity (violations ax),
                score = simulated_score (violations ax) \<rparr>"
    by (simp only: getSimulatedAnalysis_cases sum.case sum.inject)
  with Inr that show ?thesis by blast
qed

lemma getSimulatedAnalysis_severity:
  "getSimulatedAnalysis ax = Inr r \<Longrightarrow> severity r = simulated_severity (violations ax)"
  by (erule getSimulatedAnalysis_Inr) (simp only: report.select_convs)

lemma getSimulatedAnalysis_score:
  "getSimulatedAnalysis ax = Inr r \<Longrightarrow> score r = simulated_score (violations ax)"
  by (erule getSimulatedAnalysis_Inr) (simp only: report.select_convs)

lemma simulated_recommendations_Inr_iff:
  "(\<exists>rs. simulated_recommendations vs = Inr rs) \<longleftrightarrow> (\<forall>v\<in>set vs. has_nodes v)"
proof
  assume "\<exists>rs. simulated_recommendations vs = Inr rs"
  then obtain rs where rs: "map_throwing simulated_recommendation vs = Inr rs"
    by (cases "map_throwing simulated_recommendation vs")
       (simp_all add: simulated_recommendations_def)
  show "\<forall>v\<in>set vs. has_nodes v"
  proof
    fix v assume "v \<in> set vs"
    with rs have "\<exists>s. simulated_recommendation v = Inr s"
      by (rule map_throwing_defined)
    then show "has_nodes v"
      by (simp only: simulated_recommendation_Inr_iff)
  qed
next
  assume "\<forall>v\<in>set vs. has_nodes v"
  then have "\<forall>v\<in>set vs. \<exists>s. simulated_recommendation v = Inr s"
    by (simp add: simulated_recommendation_Inr_iff)
  then have "\<exists>rs. map_throwing simulated_recommendation vs = Inr rs"
    by (rule map_throwing_total)
  then obtain rs where "map_throwing simulated_recommendation vs = Inr rs" ..
  then show "\<exists>rs. simulated_recommendations vs = Inr rs"
    by (simp add: simulated_recommendations_def)
qed

lemma getSimulatedAnalysis_returns_iff:
  "(\<exists>r. getSimulatedAnalysis ax = Inr r) \<longleftrightarrow> (\<forall>v\<in>set (violations ax). has_nodes v)"
  unfolding simulated_recommendations_Inr_iff [symmetric] getSimulatedAnalysis_cases
  by (cases "simulated_recommendations (violations ax)") simp_all

lemma simulated_severity_char:
  "simulated_severity vs =
     (if \<exists>v\<in>set vs. impact v = Val ''critical'' then ''high''
      else if \<exists>v\<in>set vs. impact v = Val ''serious'' then ''medium''
      else ''low'')"
  unfolding simulated_severity_def criticalViolations_def seriousViolations_def
    length_filter_pos
  by (rule refl)

lemma count_moderate:
  "or0 (impactCounts vs ''moderate'')
     = length (filter (\<lambda>v. impact v = Val ''moderate'') vs)"
  by (simp add: impactCounts_key impact_key_eq_iff)

lemma positive_critical:
  "positive (impactCounts vs ''critical'') \<longleftrightarrow> (\<exists>v\<in>set vs. impact v = Val ''critical'')"
  by (simp only: positive_or0 count_critical criticalViolations_def length_filter_pos)

lemma positive_serious:
  "positive (impactCounts vs ''serious'') \<longleftrightarrow> (\<exists>v\<in>set vs. impact v = Val ''serious'')"
  by (simp only: positive_or0 count_serious seriousViolations_def length_filter_pos)

lemma analyze_severity_char:
  "analyze_severity (impactCounts vs) =
     (if \<exists>v\<in>set vs. impact v = Val ''critical'' then ''high''
      else if (\<exists>v\<in>set vs. impact v = Val ''serious'')
              \<or> 2 < length (filter (\<lambda>v. impact v = Val ''moderate'') vs) then ''medium''
      else ''low'')"
  unfolding analyze_severity_def count_moderate positive_critical positive_serious
  by (cases "\<exists>v\<in>set vs. impact v = Val ''critical''";
      cases "\<exists>v\<in>set vs. impact v = Val ''serious''";
      simp only: if_True if_False simp_thms)

lemma analyze_report_severity:
  "severity (analyze_report vs) = analyze_severity (impactCounts vs)"
  by (simp only: analyze_report_def report.select_convs)

lemma analyze_report_score:
  "score (analyze_report vs) = analyze_score (impactCounts vs)"
  by (simp only: analyze_report_def report.select_convs Math_round_of_int)

lemma analyze_report_recommendations:
  "recommendations (analyze_report vs) = analyze_recommendations vs"
  by (simp only: analyze_report_def report.select_convs)

section \<open>Severity\<close>

text \<open>
  Claim C2. The severity is \<open>high\<close> when some violation has impact \<open>critical\<close>;
  otherwise \<open>medium\<close> when some violation has impact \<open>serious\<close> (on the server also
  when more than two violations have impact \<open>moderate\<close>); otherwise \<open>low\<close>. This holds
  for the report of the server heuristic on every violation list, and for every report
  the client-simulated analysis returns; the client returns one whenever every
  violation carries its \<open>nodes\<close> array.
\<close>

theorem severity_from_worst_impact:
  "(getSimulatedAnalysis ax = Inr r \<longrightarrow>
      severity r =
        (if \<exists>v\<in>set (violations ax). impact v = Val ''critical'' then ''high''
         else if \<exists>v\<in>set (violations ax). impact v = Val ''serious'' then ''medium''
         else ''low''))
   \<and> ((\<forall>v\<in>set (violations ax). has_nodes v) \<longrightarrow> (\<exists>r'. getSimulatedAnalysis ax = Inr r'))
   \<and> severity (analyze_report vs) =
        (if \<exists>v\<in>set vs. impact v = Val ''critical'' then ''high''
         else if (\<exists>v\<in>set vs. impact v = Val ''serious'')
                 \<or> 2 < length (filter (\<lambda>v. impact v = Val ''moderate'') vs) then ''medium''
         else ''low'')"
proof (intro conjI impI)
  assume "getSimulatedAnalysis ax = Inr r"
  then have "severity r = simulated_severity (violations ax)"
    by (rule getSimulatedAnalysis_severity)
  then show "severity r =
        (if \<exists>v\<in>set (violations ax). impact v = Val ''critical'' then ''high''
         else if \<exists>v\<in>set (violations ax). impact v = Val ''serious'' then ''medium''
         else ''low'')"
    by (simp only: simulated_severity_char)
next
  assume "\<forall>v\<in>set (violations ax). has_nodes v"
  then show "\<exists>r'. getSimulatedAnalysis ax = Inr r'"
    by (simp only: getSimulatedAnalysis_returns_iff)
next
  show "severity (analyze_report vs) =
        (if \<exists>v\<in>set vs. impact v = Val ''critical'' then ''high''
         else if (\<exists>v\<in>set vs. impact v = Val ''serious'')
                 \<or> 2 < length (filter (\<lambda>v. impact v = Val ''moderate'') vs) then ''medium''
         else ''low'')"
    by (simp only: analyze_report_severity analyze_severity_char)
qed

lemmas sample_defs =
  sample_critical_def sample_serious_def sample_moderate_def sample_minor_def
  sample_without_nodes_def

lemmas client_defs =
  getSimulatedAnalysis_def simulated_recommendations_def simulated_recommendation_def
  simulated_summary_def simulated_severity_def simulated_score_def criticalViolations_def
  seriousViolations_def Number_toString.simps Math_max_def has_nodes_def cannot_read_def

lemmas server_selector_defs =
  analyze_report_severity analyze_report_score analyze_report_recommendations
  analyze_severity_def analyze_score_def
  analyze_recommendations_def analyze_recommendation_def impactCounts_def count_impact_def
  impact_key_def positive_def toUpperCase_def upper_char_def Number_toString.simps
  Math_max_def Math_min_def Let_def

lemmas server_defs =
  analyze_report_def analyze_summary_def analyze_severity_def analyze_score_def
  analyze_recommendations_def analyze_recommendation_def impactCounts_def count_impact_def
  impact_key_def positive_def toUpperCase_def upper_char_def Number_toString.simps
  Math_max_def Math_min_def Let_def

theorem severity_from_worst_impact_witness:
  "getSimulatedAnalysis \<lparr> violations = [sample_moderate, sample_serious], passes = Val [] \<rparr>
     = Inr \<lparr> summary = ''Analysis found 2 accessibility violations (0 critical, 1 serious). The website requires medium priority attention to meet accessibility standards.'',
             recommendations =
               [''Fix moderate issue: Add a main landmark affecting 0 elements'',
                ''Fix serious issue: Links need text affecting 2 elements''],
             severity = ''medium'', score = 85 \<rparr>
   \<and> has_nodes sample_moderate \<and> has_nodes sample_serious
   \<and> severity (analyze_report [sample_moderate, sample_moderate, sample_moderate]) = ''medium''
   \<and> severity (analyze_report [sample_moderate, sample_critical]) = ''high''
   \<and> severity (analyze_report [sample_moderate, sample_moderate]) = ''low''"
  using severity_from_worst_impact
    [of "\<lparr> violations = [sample_moderate, sample_serious], passes = Val [] \<rparr>"
        "\<lparr> summary = ''Analysis found 2 accessibility violations (0 critical, 1 serious). The website requires medium priority attention to meet accessibility standards.'',
             recommendations =
               [''Fix moderate issue: Add a main landmark affecting 0 elements'',
                ''Fix serious issue: Links need text affecting 2 elements''],
             severity = ''medium'', score = 85 \<rparr>"
        "[sample_moderate, sample_moderate, sample_moderate]"]
    severity_from_worst_impact [of _ _ "[sample_moderate, sample_critical]"]
    severity_from_worst_impact [of _ _ "[sample_moderate, sample_moderate]"]
  by (simp add: sample_defs client_defs)

section \<open>Range of the report\<close>

lemma simulated_score_bounds: "0 \<le> simulated_score vs \<and> simulated_score vs \<le> 100"
  using critical_serious_le_length [of vs]
  unfolding simulated_score_def Math_max_def max_def by (simp split: if_split)

lemma analyze_score_bounds: "0 \<le> analyze_score ic \<and> analyze_score ic \<le> 100"
  unfolding analyze_score_def Math_max_def Math_min_def max_def min_def
  by (simp split: if_split)

lemma simulated_severity_range: "simulated_severity vs \<in> {''low'', ''medium'', ''high''}"
  unfolding simulated_severity_def
  by (cases "criticalViolations vs > 0"; cases "seriousViolations vs > 0";
      simp only: if_True if_False insert_iff simp_thms)

lemma analyze_severity_range: "analyze_severity ic \<in> {''low'', ''medium'', ''high''}"
  unfolding analyze_severity_def
  by (cases "positive (ic ''critical'')"; cases "positive (ic ''serious'')";
      cases "or0 (ic ''moderate'') > 2";
      simp only: if_True if_False insert_iff simp_thms)

text \<open>
  Claim C5. Every report either heuristic path produces has a severity among \<open>low\<close>,
  \<open>medium\<close>, \<open>high\<close> and a score between 0 and 100. The client only clamps from
  below; its upper bound holds because the three penalties are taken from disjoint
  groups of violations, so none is negative.
\<close>

theorem report_in_range:
  "(getSimulatedAnalysis ax = Inr r \<longrightarrow>
      severity r \<in> {''low'', ''medium'', ''high''} \<and> 0 \<le> score r \<and> score r \<le> 100)
   \<and> severity (analyze_report vs) \<in> {''low'', ''medium'', ''high''}
   \<and> 0 \<le> score (analyze_report vs) \<and> score (analyze_report vs) \<le> 100"
proof (intro conjI impI)
  assume r: "getSimulatedAnalysis ax = Inr r"
  show "severity r \<in> {''low'', ''medium'', ''high''}"
    by (simp only: getSimulatedAnalysis_severity [OF r] simulated_severity_range)
  show "0 \<le> score r" "score r \<le> 100"
    by (simp_all only: getSimulatedAnalysis_score [OF r] simulated_score_bounds)
next
  show "severity (analyze_report vs) \<in> {''low'', ''medium'', ''high''}"
    by (simp only: analyze_report_severity analyze_severity_range)
  show "0 \<le> score (analyze_report vs)" "score (analyze_report vs) \<le> 100"
    by (simp_all only: analyze_report_score analyze_score_bounds)
qed

theorem report_in_range_witness:
  "getSimulatedAnalysis \<lparr> violations = [sample_critical, sample_serious], passes = Val [] \<rparr>
     = Inr \<lparr> summary = ''Analysis found 2 accessibility violations (1 critical, 1 serious). The website requires high priority attention to meet accessibility standards.'',
             recommendations =
               [''Fix critical issue: Images need alt text affecting 1 elements'',
                ''Fix serious issue: Links need text affecting 2 elements''],
             severity = ''high'', score = 75 \<rparr>
   \<and> score (analyze_report (replicate 8 sample_critical)) = 0
   \<and> score (analyze_report []) = 100"
  using report_in_range
    [of "\<lparr> violations = [sample_critical, sample_serious], passes = Val [] \<rparr>"
        "\<lparr> summary = ''Analysis found 2 accessibility violations (1 critical, 1 serious). The website requires high priority attention to meet accessibility standards.'',
             recommendations =
               [''Fix critical issue: Images need alt text affecting 1 elements'',
                ''Fix serious issue: Links need text affecting 2 elements''],
             severity = ''high'', score = 75 \<rparr>"
        "replicate 8 sample_critical"]
    report_in_range [of _ _ "[]"]
  by (simp add: sample_defs client_defs server_selector_defs eval_nat_numeral)

section \<open>Recommendations\<close>











section \<open>Score\<close>

lemma simulated_penalties:
  "int (criticalViolations vs) * 15 + int (seriousViolations vs) * 10
     + (int (length vs) - int (criticalViolations vs) - int (seriousViolations vs)) * 5
   = (\<Sum>v\<leftarrow>vs. if impact v = Val ''critical'' then 15
                 else if impact v = Val ''serious'' then 10 else 5)"
  unfolding criticalViolations_def seriousViolations_def
  by (induction vs) simp_all

lemma length_filter_sum:
  "int (length (filter P vs)) * k = (\<Sum>v\<leftarrow>vs. if P v then k else 0)"
  by (induction vs) (simp_all add: algebra_simps)

lemma analyze_penalty_cases:
  "(if impact_key v = ''critical'' then 20 else 0)
   + (if impact_key v = ''serious'' then 15 else 0)
   + (if impact_key v = ''moderate'' then 10 else 0)
   + (if impact_key v = ''minor'' then 5 else (0::int))
   = (if impact v = Val ''critical'' then 20
      else if impact v = Val ''serious'' then 15
      else if impact v = Val ''moderate'' then 10
      else if impact v = Val ''minor'' \<or> \<not> truthy (impact v) then 5
      else 0)"
  by (cases "impact v") (auto simp: impact_key_def)

lemma analyze_penalties:
  "int (or0 (impactCounts vs ''critical'')) * 20
   + int (or0 (impactCounts vs ''serious'')) * 15
   + int (or0 (impactCounts vs ''moderate'')) * 10
   + int (or0 (impactCounts vs ''minor'')) * 5
   = (\<Sum>v\<leftarrow>vs. if impact v = Val ''critical'' then 20
                 else if impact v = Val ''serious'' then 15
                 else if impact v = Val ''moderate'' then 10
                 else if impact v = Val ''minor'' \<or> \<not> truthy (impact v) then 5
                 else 0)"
proof -
  have "(\<Sum>v\<leftarrow>vs. (if impact_key v = ''critical'' then 20 else 0)
   + (if impact_key v = ''serious'' then 15 else 0)
   + (if impact_key v = ''moderate'' then 10 else 0)
   + (if impact_key v = ''minor'' then 5 else (0::int)))
   = (\<Sum>v\<leftarrow>vs. if impact_key v = ''critical'' then 20 else 0)
   + (\<Sum>v\<leftarrow>vs. if impact_key v = ''serious'' then 15 else 0)
   + (\<Sum>v\<leftarrow>vs. if impact_key v = ''moderate'' then 10 else 0)
   + (\<Sum>v\<leftarrow>vs. if impact_key v = ''minor'' then 5 else (0::int))"
    by (induction vs) simp_all
  then show ?thesis
    unfolding impactCounts_key length_filter_sum analyze_penalty_cases by simp
qed

text \<open>
  Claim C1, as amended. The client's score is 100 minus 15 per critical violation, 10
  per serious one and 5 per any other violation (a moderate one included), clamped
  from below at 0. The server's score is 100 minus 20 per critical violation, 15 per
  serious, 10 per moderate, 5 per violation whose impact is \<open>minor\<close>, absent or empty,
  and nothing for any other impact, clamped to \<open>[0,100]\<close>. Both are integers, so the
  rounding leaves them unchanged.
\<close>

theorem score_by_penalties:
  "(getSimulatedAnalysis ax = Inr r \<longrightarrow>
      score r = max 0 (100 - (\<Sum>v\<leftarrow>violations ax.
                                if impact v = Val ''critical'' then 15
                                else if impact v = Val ''serious'' then 10 else 5)))
   \<and> score (analyze_report vs) =
        max 0 (min 100 (100 - (\<Sum>v\<leftarrow>vs.
                                 if impact v = Val ''critical'' then 20
                                 else if impact v = Val ''serious'' then 15
                                 else if impact v = Val ''moderate'' then 10
                                 else if impact v = Val ''minor'' \<or> \<not> truthy (impact v) then 5
                                 else 0)))"
proof (intro conjI impI)
  assume "getSimulatedAnalysis ax = Inr r"
  then have "score r = simulated_score (violations ax)"
    by (rule getSimulatedAnalysis_score)
  also have "\<dots> = max 0 (100 - (int (criticalViolations (violations ax)) * 15
       + int (seriousViolations (violations ax)) * 10
       + (int (length (violations ax)) - int (criticalViolations (violations ax))
            - int (seriousViolations (violations ax))) * 5))"
    unfolding simulated_score_def Math_max_def by (simp only: diff_diff_eq)
  finally show "score r = max 0 (100 - (\<Sum>v\<leftarrow>violations ax.
                                if impact v = Val ''critical'' then 15
                                else if impact v = Val ''serious'' then 10 else 5))"
    by (simp only: simulated_penalties)
next
  have "score (analyze_report vs) = max 0 (min 100 (100 -
     (int (or0 (impactCounts vs ''critical'')) * 20
   + int (or0 (impactCounts vs ''serious'')) * 15
   + int (or0 (impactCounts vs ''moderate'')) * 10
   + int (or0 (impactCounts vs ''minor'')) * 5)))"
    unfolding analyze_report_score analyze_score_def Math_max_def Math_min_def
    by (simp only: diff_diff_eq)
  then show "score (analyze_report vs) =
        max 0 (min 100 (100 - (\<Sum>v\<leftarrow>vs.
                                 if impact v = Val ''critical'' then 20
                                 else if impact v = Val ''serious'' then 15
                                 else if impact v = Val ''moderate'' then 10
                                 else if impact v = Val ''minor'' \<or> \<not> truthy (impact v) then 5
                                 else 0)))"
    by (simp only: analyze_penalties)
qed

theorem score_by_penalties_witness:
  "getSimulatedAnalysis \<lparr> violations = [sample_critical, sample_moderate], passes = Val [] \<rparr>
     = Inr \<lparr> summary = ''Analysis found 2 accessibility violations (1 critical, 0 serious). The website requires high priority attention to meet accessibility standards.'',
             recommendations =
               [''Fix critical issue: Images need alt text affecting 1 elements'',
                ''Fix moderate issue: Add a main landmark affecting 0 elements''],
             severity = ''high'', score = 80 \<rparr>
   \<and> score (analyze_report [sample_critical, sample_moderate]) = 70"
  using score_by_penalties
    [of "\<lparr> violations = [sample_critical, sample_moderate], passes = Val [] \<rparr>"
        "\<lparr> summary = ''Analysis found 2 accessibility violations (1 critical, 0 serious). The website requires high priority attention to meet accessibility standards.'',
             recommendations =
               [''Fix critical issue: Images need alt text affecting 1 elements'',
                ''Fix moderate issue: Add a main landmark affecting 0 elements''],
             severity = ''high'', score = 80 \<rparr>"
        "[sample_critical, sample_moderate]"]
  by (simp add: sample_defs client_defs)

text \<open>
  Claim C1 as the specification states it fails on the client: one moderate violation
  costs 5 there, where the specification's penalty for the class is 10 in either
  variant.
\<close>

theorem moderate_penalty_counterexample:
  "getSimulatedAnalysis \<lparr> violations = [sample_moderate], passes = Val [] \<rparr>
     = Inr \<lparr> summary = ''Analysis found 1 accessibility violations (0 critical, 0 serious). The website requires low priority attention to meet accessibility standards.'',
             recommendations =
               [''Fix moderate issue: Add a main landmark affecting 0 elements''],
             severity = ''low'', score = 95 \<rparr>
   \<and> spec_score 15 10 [sample_moderate] = 90
   \<and> spec_score 20 15 [sample_moderate] = 90"
  by (simp add: sample_defs client_defs spec_score_def spec_penalty_def)

section \<open>The two paths compared\<close>

lemma minor_only_counts:
  assumes "\<forall>v\<in>set vs. impact v = Val ''minor'' \<or> \<not> truthy (impact v)"
  shows "criticalViolations vs = 0" "seriousViolations vs = 0"
    "or0 (impactCounts vs ''moderate'') = 0" "or0 (impactCounts vs ''minor'') = length vs"
proof -
  have k: "impact_key v = ''minor''" if "v \<in> set vs" for v
    using assms that by (simp only: impact_key_minor)
  have n: "impact v \<noteq> Val ''critical''" "impact v \<noteq> Val ''serious''" if "v \<in> set vs" for v
    using assms that by auto
  show "criticalViolations vs = 0" "seriousViolations vs = 0"
    using n by (simp_all add: criticalViolations_def seriousViolations_def)
  have "filter (\<lambda>v. impact_key v = ''moderate'') vs = []"
    using k by (simp add: filter_empty_conv)
  then show "or0 (impactCounts vs ''moderate'') = 0"
    by (simp only: impactCounts_key list.size)
  have "filter (\<lambda>v. impact_key v = ''minor'') vs = vs"
    using k by (simp add: filter_id_conv)
  then show "or0 (impactCounts vs ''minor'') = length vs"
    by (simp only: impactCounts_key)
qed

text \<open>
  Claim C3 as stated fails: one critical violation scores 85 on the client and 80 on
  the server, and three moderate violations are \<open>low\<close> on the client and \<open>medium\<close> on
  the server.
\<close>

theorem paths_differ_counterexample:
  "getSimulatedAnalysis \<lparr> violations = [sample_critical], passes = Val [] \<rparr>
     = Inr \<lparr> summary = ''Analysis found 1 accessibility violations (1 critical, 0 serious). The website requires high priority attention to meet accessibility standards.'',
             recommendations =
               [''Fix critical issue: Images need alt text affecting 1 elements''],
             severity = ''high'', score = 85 \<rparr>
   \<and> score (analyze_report [sample_critical]) = 80
   \<and> getSimulatedAnalysis
        \<lparr> violations = [sample_moderate, sample_moderate, sample_moderate], passes = Val [] \<rparr>
     = Inr \<lparr> summary = ''Analysis found 3 accessibility violations (0 critical, 0 serious). The website requires low priority attention to meet accessibility standards.'',
             recommendations =
               [''Fix moderate issue: Add a main landmark affecting 0 elements'',
                ''Fix moderate issue: Add a main landmark affecting 0 elements'',
                ''Fix moderate issue: Add a main landmark affecting 0 elements''],
             severity = ''low'', score = 85 \<rparr>
   \<and> severity (analyze_report [sample_moderate, sample_moderate, sample_moderate]) = ''medium''"
  by (simp add: sample_defs client_defs server_selector_defs)

text \<open>
  Claim C3, as amended. For every report the client returns: the server's severity on
  the same list is the same whenever the list has a critical or serious violation or at
  most two moderate ones; and when every violation's impact is \<open>minor\<close>, absent or
  empty, the server's score and severity are both the same as the client's.
\<close>

theorem paths_agree_partially:
  "getSimulatedAnalysis ax = Inr r \<longrightarrow>
     (((\<exists>v\<in>set (violations ax). impact v = Val ''critical'' \<or> impact v = Val ''serious'')
        \<or> length (filter (\<lambda>v. impact v = Val ''moderate'') (violations ax)) \<le> 2)
         \<longrightarrow> severity (analyze_report (violations ax)) = severity r)
     \<and> ((\<forall>v\<in>set (violations ax). impact v = Val ''minor'' \<or> \<not> truthy (impact v))
         \<longrightarrow> score (analyze_report (violations ax)) = score r
             \<and> severity (analyze_report (violations ax)) = severity r)"
proof (intro impI conjI)
  assume r: "getSimulatedAnalysis ax = Inr r"
  let ?vs = "violations ax"
  have sev: "severity r = simulated_severity ?vs" using r by (rule getSimulatedAnalysis_severity)
  have sc: "score r = simulated_score ?vs" using r by (rule getSimulatedAnalysis_score)
  {
    assume h: "(\<exists>v\<in>set ?vs. impact v = Val ''critical'' \<or> impact v = Val ''serious'')
        \<or> length (filter (\<lambda>v. impact v = Val ''moderate'') ?vs) \<le> 2"
    show "severity (analyze_report ?vs) = severity r"
      unfolding sev analyze_report_severity analyze_severity_char simulated_severity_char
      using h by auto
  }
  {
    assume m: "\<forall>v\<in>set ?vs. impact v = Val ''minor'' \<or> \<not> truthy (impact v)"
    note c = minor_only_counts [OF m]
    show "score (analyze_report ?vs) = score r"
      unfolding sc analyze_report_score analyze_score_def simulated_score_def
        count_critical count_serious c Math_max_def Math_min_def
      by simp
    have "length (filter (\<lambda>v. impact v = Val ''moderate'') ?vs) = 0"
      using c(3) by (simp only: count_moderate)
    then show "severity (analyze_report ?vs) = severity r"
      unfolding sev analyze_report_severity analyze_severity_char simulated_severity_char
      using m by auto
  }
qed

theorem paths_agree_partially_witness:
  "getSimulatedAnalysis \<lparr> violations = [sample_minor], passes = Val [] \<rparr>
     = Inr \<lparr> summary = ''Analysis found 1 accessibility violations (0 critical, 0 serious). The website requires low priority attention to meet accessibility standards.'',
             recommendations =
               [''Fix null issue: Order the headings affecting 0 elements''],
             severity = ''low'', score = 95 \<rparr>
   \<and> score (analyze_report [sample_minor]) = 95
   \<and> severity (analyze_report [sample_minor]) = ''low''"
  using paths_agree_partially
    [of "\<lparr> violations = [sample_minor], passes = Val [] \<rparr>"
        "\<lparr> summary = ''Analysis found 1 accessibility violations (0 critical, 0 serious). The website requires low priority attention to meet accessibility standards.'',
             recommendations =
               [''Fix null issue: Order the headings affecting 0 elements''],
             severity = ''low'', score = 95 \<rparr>"]
  by (simp add: sample_defs client_defs)

section \<open>The parser rejects a text cut before its end\<close>

lemma run_append:
  "run (t @ u) s = (case run t s of None \<Rightarrow> None | Some s' \<Rightarrow> run u s')"
  by (induction t arbitrary: s) (simp_all split: option.splits)

lemma accept_top_done: "accept s = Some j \<Longrightarrow> top_done s"
  by (induction s rule: accept.induct) (simp_all add: top_done_def)

lemma not_ws_close: "\<not> is_ws (CHR '']'')"
  by (simp add: is_ws_def)

lemma num_step_close: "num_step ns (CHR '']'') = None"
  by (cases ns) (simp_all add: is_digit_def)

lemma top_done_cases:
  assumes "top_done s"
  obtains (complete) v where "s = (Done v, [])" | (number) ns l where "s = (InNumber ns l, [])"
  using assms by (cases s; cases "fst s") (auto simp: top_done_def)

lemma step_close_top_done: "top_done s \<Longrightarrow> step (CHR '']'') s = None"
  by (erule top_done_cases) (simp_all add: not_ws_close num_step_close)

lemma step_top_done: "top_done s \<Longrightarrow> step c s = Some s' \<Longrightarrow> top_done s'"
  by (erule top_done_cases)
     (auto simp: top_done_def split: if_splits option.splits)

lemma run_top_done_close:
  "top_done s \<Longrightarrow> u \<noteq> [] \<Longrightarrow> last u = CHR '']'' \<Longrightarrow> run u s = None"
proof (induction u arbitrary: s)
  case Nil
  then show ?case by simp
next
  case (Cons c u)
  show ?case
  proof (cases "step c s")
    case None
    then show ?thesis by simp
  next
    case (Some s')
    with Cons.prems(1) have td: "top_done s'" by (simp add: step_top_done)
    show ?thesis
    proof (cases "u = []")
      case True
      with Cons.prems(3) have "c = CHR '']''" by simp
      with Cons.prems(1) Some show ?thesis by (simp add: step_close_top_done)
    next
      case False
      with Cons.prems(3) have "last u = CHR '']''" by simp
      with Cons.IH [OF td False] Some show ?thesis by simp
    qed
  qed
qed

lemma JSON_parse_proper_prefix:
  assumes "JSON_parse (t @ u) = Some j" and "u \<noteq> []" and "last u = CHR '']''"
  shows "JSON_parse t = None"
proof (rule ccontr)
  assume "JSON_parse t \<noteq> None"
  then obtain s j' where s: "run t (Value, []) = Some s" and "accept s = Some j'"
    by (auto simp: JSON_parse_def split: option.splits)
  then have "top_done s" by (simp add: accept_top_done)
  then have "run u s = None" using assms(2,3) by (rule run_top_done_close)
  with s have "JSON_parse (t @ u) = None" by (simp add: JSON_parse_def run_append)
  with assms(1) show False by simp
qed


section \<open>The text handed to \<open>JSON.parse\<close>\<close>

lemma search_char_first: "c \<notin> set xs \<Longrightarrow> search [c] (xs @ c # ys) = Some (length xs)"
  by (induction xs) auto

lemma indexOf_char_first:
  assumes "c \<notin> set xs"
  shows "String_indexOf (pre @ xs @ c # ys) [c] (int (length pre)) = int (length pre + length xs)"
proof -
  have "nat (min (max (int (length pre)) 0) (int (length (pre @ xs @ c # ys)))) = length pre"
    by simp
  then show ?thesis
    unfolding String_indexOf_def Let_def
    by (simp add: search_char_first [OF assms])
qed

lemma slice_middle:
  "String_slice (pre @ xs @ ys) (int (length pre)) (int (length pre + length xs)) = xs"
proof -
  have n: "nat (int (length pre + length xs) - int (length pre)) = length xs"
    by simp
  have "min (int (length pre)) (int (length (pre @ xs @ ys))) = int (length pre)"
    "min (int (length pre + length xs)) (int (length (pre @ xs @ ys)))
       = int (length pre + length xs)"
    by simp_all
  then show ?thesis
    unfolding String_slice_def Let_def using n by (cases xs) simp_all
qed

lemma open_notin_marker: "CHR ''['' \<notin> set marker"
  by (simp add: marker_def)

lemma extract_json_first_close:
  assumes m: "String_indexOf (pre @ marker @ mid @ CHR ''['' # a1 @ CHR '']'' # rest) marker 0
                = int (length pre)"
    and mid: "CHR ''['' \<notin> set mid"
    and a1: "CHR '']'' \<notin> set a1"
  shows "extract_json (pre @ marker @ mid @ CHR ''['' # a1 @ CHR '']'' # rest)
           = CHR ''['' # a1 @ [CHR '']'']"
proof -
  let ?prompt = "pre @ marker @ mid @ CHR ''['' # a1 @ CHR '']'' # rest"
  have o: "CHR ''['' \<notin> set (marker @ mid)"
    using mid open_notin_marker by simp
  have js: "String_indexOf ?prompt ''['' (int (length pre))
              = int (length pre + length (marker @ mid))"
    using indexOf_char_first [OF o, of pre "a1 @ CHR '']'' # rest"] by simp
  have c: "CHR '']'' \<notin> set (CHR ''['' # a1)"
    using a1 by simp
  have je: "String_indexOf ?prompt '']'' (int (length (pre @ marker @ mid)))
              = int (length (pre @ marker @ mid) + length (CHR ''['' # a1))"
    using indexOf_char_first [OF c, of "pre @ marker @ mid" rest] by simp
  have sl: "String_slice ?prompt (int (length (pre @ marker @ mid)))
              (int (length (pre @ marker @ mid) + length (CHR ''['' # a1 @ [CHR '']''])))
            = CHR ''['' # a1 @ [CHR '']'']"
    using slice_middle [of "pre @ marker @ mid" "CHR ''['' # a1 @ [CHR '']'']" rest] by simp
  show ?thesis
    unfolding extract_json_def Let_def m js
    using je sl by (simp add: add.commute add.left_commute)
qed

section \<open>\<open>GET /scan\<close>\<close>




section \<open>\<open>POST /analyze\<close>\<close>





section \<open>The array embedded in the prompt\<close>

text \<open>
  Claim C9 as stated fails when the URL, which stands between the marker and the
  array, has a bracket of its own: the text handed to \<open>JSON.parse\<close> is then cut from
  the URL, here \<open>[]\<close>, and the endpoint answers 200 with the report of an empty list
  although the embedded array has a nested array.
\<close>

theorem bracket_in_url_counterexample:
  "JSON_parse sample_array = Some (JArr [JObj [(map of_char ''nodes'', JArr [])]])
   \<and> post_analyze (\<lambda>e. [])
        (Val (marker @ '' http://a.example/?tag[]=1:'' @ [CHR 0x0A] @ sample_array))
     = \<lparr> status = 200, body = ReportBody (JSON_stringify (analyze_report [])) \<rparr>"
  by code_simp

text \<open>
  Claim C9, as amended. Let the marker first occur after \<open>pre\<close>, let no \<open>[\<close> stand
  between the marker and the embedded array, and let the array be a JSON text that
  ends with its closing bracket and has an earlier \<open>]\<close>: it is \<open>[ a1 ] a2\<close> with no
  \<open>]\<close> in \<open>a1\<close> and \<open>a2\<close> not empty. Then the handler hands \<open>JSON.parse\<close> the proper
  prefix \<open>[ a1 ]\<close>, the parse fails, and the endpoint answers 500 with the message
  \<open>Invalid accessibility data format\<close>.
\<close>

theorem analyze_rejects_nested_array:
  assumes "String_indexOf (pre @ marker @ mid @ CHR ''['' # a1 @ CHR '']'' # a2 @ post) marker 0
             = int (length pre)"
    and "CHR ''['' \<notin> set mid"
    and "CHR '']'' \<notin> set a1"
    and "a2 \<noteq> []"
    and "last a2 = CHR '']''"
    and "JSON_parse (CHR ''['' # a1 @ CHR '']'' # a2) = Some j"
  shows "extract_json (pre @ marker @ mid @ CHR ''['' # a1 @ CHR '']'' # a2 @ post)
           = CHR ''['' # a1 @ [CHR '']'']
     \<and> JSON_parse (CHR ''['' # a1 @ [CHR '']'']) = None
     \<and> post_analyze stack (Val (pre @ marker @ mid @ CHR ''['' # a1 @ CHR '']'' # a2 @ post))
         = \<lparr> status = 500,
             body = ErrorDetailsBody ''Analysis failed: Invalid accessibility data format''
                      (stack (Error ''Invalid accessibility data format'')) \<rparr>"
proof -
  let ?prompt = "pre @ marker @ mid @ CHR ''['' # a1 @ CHR '']'' # a2 @ post"
  have x: "extract_json ?prompt = CHR ''['' # a1 @ [CHR '']'']"
    using assms(1-3) by (rule extract_json_first_close)
  have "JSON_parse ((CHR ''['' # a1 @ [CHR '']'']) @ a2) = Some j"
    using assms(6) by simp
  then have p: "JSON_parse (CHR ''['' # a1 @ [CHR '']'']) = None"
    using assms(4,5) by (rule JSON_parse_proper_prefix)
  have "analyze_try ?prompt = Inl (Error ''Invalid accessibility data format'')"
    by (simp add: analyze_try_def parse_violations_def x p)
  moreover have "truthy (Val ?prompt)" by simp
  ultimately have "post_analyze stack (Val ?prompt)
         = \<lparr> status = 500,
             body = ErrorDetailsBody ''Analysis failed: Invalid accessibility data format''
                      (stack (Error ''Invalid accessibility data format'')) \<rparr>"
    by (simp add: post_analyze_def)
  with x p show ?thesis by simp
qed

theorem analyze_rejects_nested_array_witness:
  "JSON_parse sample_array = Some (JArr [JObj [(map of_char ''nodes'', JArr [])]])
   \<and> extract_json (''Scan. '' @ marker @ '' http://a.example: '' @ sample_array @ '' Total: 1'')
       = ''[{'' @ [CHR 0x22] @ ''nodes'' @ [CHR 0x22] @ '':[]''
   \<and> post_analyze (\<lambda>e. ''at app.post'')
        (Val (''Scan. '' @ marker @ '' http://a.example: '' @ sample_array @ '' Total: 1''))
     = \<lparr> status = 500,
         body = ErrorDetailsBody ''Analysis failed: Invalid accessibility data format''
                  ''at app.post'' \<rparr>"
proof -
  let ?a1 = "''{'' @ [CHR 0x22] @ ''nodes'' @ [CHR 0x22] @ '':[''"
  have arr: "sample_array = CHR ''['' # ?a1 @ CHR '']'' # ''}]''"
    by (simp add: sample_array_def)
  have j: "JSON_parse (CHR ''['' # ?a1 @ CHR '']'' # ''}]'')
             = Some (JArr [JObj [(map of_char ''nodes'', JArr [])]])"
    by code_simp
  have m: "String_indexOf
             (''Scan. '' @ marker @ '' http://a.example: '' @ CHR ''['' # ?a1 @ CHR '']'' # ''}]''
                @ '' Total: 1'') marker 0
           = int (length ''Scan. '')"
    by code_simp
  have mid: "CHR ''['' \<notin> set '' http://a.example: ''" by simp
  have a1: "CHR '']'' \<notin> set ?a1" by simp
  have a2: "''}]'' \<noteq> []" "last ''}]'' = CHR '']''" by simp_all
  note t = analyze_rejects_nested_array [OF m mid a1 a2 j, of "\<lambda>e. ''at app.post''"]
  from t j show ?thesis by (simp add: arr)
qed

section \<open>Failures on the client\<close>







end
